theory Spec2Isabelle
  imports
    Main
    "HOL-Library.Char_ord"
    "HOL-Library.List_Lexorder"
begin

section \<open>The WeChat webhook (\<open>src/unnamed/part_000\<close>)\<close>

text \<open>
  The webhook is a serverless function with two entry points, chosen by the HTTP method:
  \<open>handleVerification\<close> (GET) and \<open>handleMessage\<close> (POST). Each writes one response
  through \<open>res.status(code).send(body)\<close>; the model returns that response as a value.
  JavaScript strings are modelled as \<open>string\<close>, one \<open>char\<close> per code unit (so the
  model covers code units below 256).

  The libraries the handlers call are not part of the repository. Each one is a parameter
  of the handler that calls it:
  \<^item> \<open>sha1hex\<close> stands for \<open>crypto.createHash('sha1').update(s).digest('hex')\<close>;
  \<^item> \<open>parseString\<close> stands for xml2js's \<open>parseStringPromise\<close>, and
    \<open>objectConverts\<close> tells whether an object of the parsed document converts to a
    string without throwing (this depends on the prototype the parser gives its objects);
  \<^item> \<open>buildObject\<close> stands for xml2js's \<open>new Builder({ cdata: true }).buildObject\<close>;
  \<^item> \<open>generateContent\<close> stands for \<open>ai.models.generateContent\<close> followed by \<open>.text\<close>;
  \<^item> \<open>now\<close> stands for \<open>Date.now()\<close>.
\<close>

subsection \<open>Requests and responses\<close>

text \<open>
  A query parameter of a Vercel request is a string or, when the key is repeated in the
  URL, an array of strings; a key that is absent reads as \<open>undefined\<close> (here \<open>None\<close>).
\<close>

datatype qval = QStr string | QArr "string list"

datatype stream_event = EvData string | EvEnd | EvError

record request =
  httpMethod :: string
  query :: "string \<rightharpoonup> qval"
  events :: "stream_event list"

text \<open>
  \<open>body\<close> is the argument of \<open>send\<close>; \<open>contentType\<close> is the header set by
  \<open>res.setHeader('Content-Type', ...)\<close>, if any.
\<close>

record response =
  status :: nat
  contentType :: "string option"
  body :: qval

subsection \<open>JavaScript values\<close>

text \<open>The result of the XML parser has type \<open>any\<close>.\<close>

datatype jsval =
    Undefined
  | Null
  | Str string
  | Num int
  | Arr "jsval list"
  | Obj "(string \<times> jsval) list"

datatype jserror = StreamError | ParseError | TypeError | ApiError | BuildError

text \<open>
  What a handler did: the response it sent (\<open>None\<close> when it never sends one), the
  strings it hashed, and the prompts it passed to the generative-text API, in order.
\<close>

record outcome =
  sent :: "response option"
  hashed :: "string list"
  apiCalls :: "jsval list"

subsection \<open>Verification (GET)\<close>

text \<open>\<open>!x\<close> for a query parameter: \<open>undefined\<close> and the empty string are falsy, every array is truthy.\<close>

fun falsy :: "qval option \<Rightarrow> bool" where
  "falsy None = True"
| "falsy (Some (QStr s)) = (s = [])"
| "falsy (Some (QArr xs)) = False"

text \<open>\<open>ToString\<close>: an array of strings is joined with commas.\<close>

fun joinWith :: "string \<Rightarrow> string list \<Rightarrow> string" where
  "joinWith sep [] = []"
| "joinWith sep [x] = x"
| "joinWith sep (x # y # ys) = x @ sep @ joinWith sep (y # ys)"

fun toString :: "qval \<Rightarrow> string" where
  "toString (QStr s) = s"
| "toString (QArr xs) = joinWith '','' xs"

text \<open>
  \<open>Array.prototype.sort()\<close> without a comparator is a stable sort on the \<open>ToString\<close> of
  the elements, compared code unit by code unit; \<open>join('')\<close> concatenates their
  \<open>ToString\<close>.
\<close>

definition jsSort :: "qval list \<Rightarrow> qval list" where
  "jsSort xs = sort_key toString xs"

definition joinEmpty :: "qval list \<Rightarrow> string" where
  "joinEmpty xs = concat (map toString xs)"

definition missingParameters :: outcome where
  "missingParameters =
     \<lparr>sent = Some \<lparr>status = 400, contentType = None,
                     body = QStr ''Missing verification parameters.''\<rparr>,
      hashed = [], apiCalls = []\<rparr>"

text \<open>
  The module refuses to load unless \<open>WECHAT_TOKEN\<close> and \<open>GEMINI_API_KEY\<close> are set, so
  the token is a string when a handler runs. After the guard the four parameters are
  present, so the last case below is never taken.
\<close>

definition handleVerification :: "(string \<Rightarrow> string) \<Rightarrow> string \<Rightarrow> request \<Rightarrow> outcome" where
  "handleVerification sha1hex WECHAT_TOKEN req =
     (if falsy (query req ''signature'') \<or> falsy (query req ''timestamp'')
         \<or> falsy (query req ''nonce'') \<or> falsy (query req ''echostr'')
      then missingParameters
      else
        (case (query req ''signature'', query req ''timestamp'',
               query req ''nonce'', query req ''echostr'') of
           (Some signature, Some timestamp, Some nonce, Some echostr) \<Rightarrow>
             (let list = jsSort [QStr WECHAT_TOKEN, timestamp, nonce];
                  joined = joinEmpty list;
                  sha1 = sha1hex joined
              in if QStr sha1 = signature
                 then \<lparr>sent = Some \<lparr>status = 200, contentType = None, body = echostr\<rparr>,
                       hashed = [joined], apiCalls = []\<rparr>
                 else \<lparr>sent = Some \<lparr>status = 403, contentType = None,
                                      body = QStr ''Verification failed.''\<rparr>,
                       hashed = [joined], apiCalls = []\<rparr>)
         | _ \<Rightarrow> missingParameters))"

subsection \<open>Message handling (POST)\<close>

text \<open>
  \<open>getRawBody\<close> returns a promise that the request stream settles: every \<open>data\<close> event
  appends its chunk to the buffer (\<open>body\<close> in the source, \<open>buf\<close> here), the first
  \<open>end\<close> event resolves the promise with what was collected, the first \<open>error\<close> event
  rejects it. A stream that emits neither leaves it pending.
\<close>

datatype 'a promise = Pending | Rejected jserror | Resolved 'a

fun getRawBody :: "stream_event list \<Rightarrow> string \<Rightarrow> string promise" where
  "getRawBody [] buf = Pending"
| "getRawBody (EvData chunk # es) buf = getRawBody es (buf @ chunk)"
| "getRawBody (EvEnd # es) buf = Resolved buf"
| "getRawBody (EvError # es) buf = Rejected StreamError"

text \<open>
  Property access \<open>v.k\<close> and \<open>v[0]\<close>. Reading a property of \<open>undefined\<close> or \<open>null\<close>
  throws a \<open>TypeError\<close>; a property that a value does not have reads as \<open>undefined\<close>.
  \<open>getProp\<close> is used for the five names the handler reads (\<open>xml\<close>, \<open>MsgType\<close>,
  \<open>Content\<close>, \<open>FromUserName\<close>, \<open>ToUserName\<close>), none of which is inherited from a
  prototype of strings, numbers or arrays.
\<close>

fun getProp :: "string \<Rightarrow> jsval \<Rightarrow> jserror + jsval" where
  "getProp k Undefined = Inl TypeError"
| "getProp k Null = Inl TypeError"
| "getProp k (Obj kvs) = (case map_of kvs k of Some v \<Rightarrow> Inr v | None \<Rightarrow> Inr Undefined)"
| "getProp k (Str s) = Inr Undefined"
| "getProp k (Num n) = Inr Undefined"
| "getProp k (Arr xs) = Inr Undefined"

fun index0 :: "jsval \<Rightarrow> jserror + jsval" where
  "index0 Undefined = Inl TypeError"
| "index0 Null = Inl TypeError"
| "index0 (Arr xs) = (case xs of [] \<Rightarrow> Inr Undefined | x # _ \<Rightarrow> Inr x)"
| "index0 (Str s) = (case s of [] \<Rightarrow> Inr Undefined | c # _ \<Rightarrow> Inr (Str [c]))"
| "index0 (Num n) = Inr Undefined"
| "index0 (Obj kvs) = (case map_of kvs ''0'' of Some v \<Rightarrow> Inr v | None \<Rightarrow> Inr Undefined)"

text \<open>The pattern \<open>message.K[0]\<close>.\<close>

definition field0 :: "string \<Rightarrow> jsval \<Rightarrow> jserror + jsval" where
  "field0 k message = (case getProp k message of Inl e \<Rightarrow> Inl e | Inr v \<Rightarrow> index0 v)"

text \<open>
  The template literal of the \<open>console.log\<close> line applies \<open>ToString\<close> to \<open>fromUser\<close>
  and \<open>userPrompt\<close>. Only whether it throws matters here. It does not throw on a
  primitive value; an array is joined, which converts every element that is neither
  \<open>undefined\<close> nor \<open>null\<close>; an object is converted by its own methods.
\<close>

fun convertsToString :: "(jsval \<Rightarrow> bool) \<Rightarrow> jsval \<Rightarrow> bool" where
  "convertsToString objectConverts (Arr xs) =
     (\<forall>x \<in> set xs. x = Undefined \<or> x = Null \<or> convertsToString objectConverts x)"
| "convertsToString objectConverts (Obj kvs) = objectConverts (Obj kvs)"
| "convertsToString objectConverts Undefined = True"
| "convertsToString objectConverts Null = True"
| "convertsToString objectConverts (Str s) = True"
| "convertsToString objectConverts (Num n) = True"

text \<open>
  \<open>getGeminiResponse\<close> calls the API once. \<open>generateContent prompt\<close> is \<open>Inl e\<close> when the
  call throws, \<open>Inr None\<close> when the result has no \<open>text\<close>, \<open>Inr (Some t)\<close> otherwise.
\<close>

definition getGeminiResponse :: "(jsval \<Rightarrow> jserror + string option) \<Rightarrow> jsval \<Rightarrow> string" where
  "getGeminiResponse generateContent prompt =
     (case generateContent prompt of
        Inr (Some text) \<Rightarrow> text
      | Inr None \<Rightarrow> ''I'm not sure how to respond to that.''
      | Inl err \<Rightarrow> ''Sorry, I'm having trouble thinking right now. Please try again later.'')"

text \<open>The object handed to the XML builder, under the root element \<open>xml\<close>.\<close>

record replyPayload =
  ToUserName :: jsval
  FromUserName :: jsval
  CreateTime :: int
  MsgType :: string
  Content :: string

definition sendReply ::
  "(replyPayload \<Rightarrow> jserror + string) \<Rightarrow> int \<Rightarrow> jsval \<Rightarrow> string \<Rightarrow> jserror + response" where
  "sendReply buildObject now originalMessage content =
     (case field0 ''ToUserName'' originalMessage of
        Inl e \<Rightarrow> Inl e
      | Inr toUserName \<Rightarrow>
     (case field0 ''FromUserName'' originalMessage of
        Inl e \<Rightarrow> Inl e
      | Inr fromUserName \<Rightarrow>
     (case buildObject \<lparr>ToUserName = toUserName, FromUserName = fromUserName,
                         CreateTime = now div 1000, MsgType = ''text'',
                         Content = content\<rparr> of
        Inl e \<Rightarrow> Inl e
      | Inr xmlResponse \<Rightarrow>
          Inr \<lparr>status = 200, contentType = Some ''application/xml'',
               body = QStr xmlResponse\<rparr>)))"

text \<open>
  The body of the \<open>try\<close> block after the request body has been read: the response sent or
  the error thrown, and the prompts passed to the API.
\<close>

definition tryMessage ::
  "(string \<Rightarrow> jserror + jsval) \<Rightarrow> (jsval \<Rightarrow> bool) \<Rightarrow>
   (replyPayload \<Rightarrow> jserror + string) \<Rightarrow> (jsval \<Rightarrow> jserror + string option) \<Rightarrow>
   int \<Rightarrow> string \<Rightarrow> (jserror + response) \<times> jsval list" where
  "tryMessage parseString objectConverts buildObject generateContent now xmlData =
     (case parseString xmlData of
        Inl e \<Rightarrow> (Inl e, [])
      | Inr parsedXml \<Rightarrow>
     (case getProp ''xml'' parsedXml of
        Inl e \<Rightarrow> (Inl e, [])
      | Inr message \<Rightarrow>
     (case field0 ''MsgType'' message of
        Inl e \<Rightarrow> (Inl e, [])
      | Inr msgType \<Rightarrow>
          if msgType \<noteq> Str ''text''
          then (sendReply buildObject now message
                  ''Sorry, I can only understand text messages for now.'', [])
          else
     (case field0 ''Content'' message of
        Inl e \<Rightarrow> (Inl e, [])
      | Inr userPrompt \<Rightarrow>
     (case field0 ''FromUserName'' message of
        Inl e \<Rightarrow> (Inl e, [])
      | Inr fromUser \<Rightarrow>
     (case field0 ''ToUserName'' message of
        Inl e \<Rightarrow> (Inl e, [])
      | Inr toUser \<Rightarrow>
          if \<not> (convertsToString objectConverts fromUser
                \<and> convertsToString objectConverts userPrompt)
          then (Inl TypeError, [])
          else
            (let geminiResponse = getGeminiResponse generateContent userPrompt
             in (sendReply buildObject now
                   (Obj [(''FromUserName'', Arr [toUser]), (''ToUserName'', Arr [fromUser])])
                   geminiResponse,
                 [userPrompt]))))))))"

text \<open>The \<open>catch\<close> block: \<open>res.status(200).send('')\<close>.\<close>

definition emptyOk :: response where
  "emptyOk = \<lparr>status = 200, contentType = None, body = QStr ''''\<rparr>"

definition handleMessage ::
  "(string \<Rightarrow> jserror + jsval) \<Rightarrow> (jsval \<Rightarrow> bool) \<Rightarrow>
   (replyPayload \<Rightarrow> jserror + string) \<Rightarrow> (jsval \<Rightarrow> jserror + string option) \<Rightarrow>
   int \<Rightarrow> request \<Rightarrow> outcome" where
  "handleMessage parseString objectConverts buildObject generateContent now req =
     (case getRawBody (events req) '''' of
        Pending \<Rightarrow> \<lparr>sent = None, hashed = [], apiCalls = []\<rparr>
      | Rejected e \<Rightarrow> \<lparr>sent = Some emptyOk, hashed = [], apiCalls = []\<rparr>
      | Resolved xmlData \<Rightarrow>
          (case tryMessage parseString objectConverts buildObject generateContent now
                  xmlData of
             (Inr r, calls) \<Rightarrow> \<lparr>sent = Some r, hashed = [], apiCalls = calls\<rparr>
           | (Inl e, calls) \<Rightarrow> \<lparr>sent = Some emptyOk, hashed = [], apiCalls = calls\<rparr>))"

subsection \<open>The entry point\<close>

definition handler ::
  "(string \<Rightarrow> string) \<Rightarrow> string \<Rightarrow> (string \<Rightarrow> jserror + jsval) \<Rightarrow> (jsval \<Rightarrow> bool) \<Rightarrow>
   (replyPayload \<Rightarrow> jserror + string) \<Rightarrow> (jsval \<Rightarrow> jserror + string option) \<Rightarrow>
   int \<Rightarrow> request \<Rightarrow> outcome" where
  "handler sha1hex WECHAT_TOKEN parseString objectConverts buildObject generateContent now req =
     (if httpMethod req = ''GET'' then handleVerification sha1hex WECHAT_TOKEN req
      else if httpMethod req = ''POST''
      then handleMessage parseString objectConverts buildObject generateContent now req
      else \<lparr>sent = Some \<lparr>status = 405, contentType = None, body = QStr ''Method Not Allowed''\<rparr>,
            hashed = [], apiCalls = []\<rparr>)"

section \<open>The prompt form (\<open>src/index.tsx\<close>)\<close>

text \<open>The four \<open>useState\<close> cells of \<open>App\<close>.\<close>

record appState =
  prompt :: string
  response :: string
  loading :: bool
  error :: string







section \<open>Concrete requests\<close>

text \<open>
  The theorems below hold for every digest function, parser, builder and API. Where a
  handler is evaluated at a concrete request, the following stand in for them:
  \<open>toyDigest\<close> for the digest, \<open>sampleParse\<close> for the parser (it knows two bodies),
  \<open>nullPrototype\<close> for the conversion of parsed objects (none converts),
  \<open>sampleBuild\<close> for the builder (it renders the names, the type and the content, and
  refuses names that are not strings), \<open>okApi\<close> and \<open>failingApi\<close> for the API of the
  webhook (\<open>strictBuild\<close> and \<open>controlApi\<close> are introduced below), \<open>formOkApi\<close>,
  \<open>formFailingApi\<close> and \<open>formThrowingApi\<close> for the API of the form.
\<close>

definition toyDigest :: "string \<Rightarrow> string" where
  "toyDigest s = rev s"

definition verifyRequest :: request where
  "verifyRequest =
     \<lparr>httpMethod = ''GET'',
      query = [''signature'' \<mapsto> QStr ''nekotecn0n0000000071'',
               ''timestamp'' \<mapsto> QStr ''1700000000'',
               ''nonce'' \<mapsto> QStr ''n0nce'',
               ''echostr'' \<mapsto> QStr ''echo-123''],
      events = []\<rparr>"

definition textXml :: string where
  "textXml = ''<xml><ToUserName><![CDATA[gh_bot]]></ToUserName><FromUserName><![CDATA[user1]]></FromUserName><CreateTime>1700000000</CreateTime><MsgType><![CDATA[text]]></MsgType><Content><![CDATA[hello]]></Content></xml>''"

definition textMessage :: jsval where
  "textMessage =
     Obj [(''ToUserName'', Arr [Str ''gh_bot'']),
          (''FromUserName'', Arr [Str ''user1'']),
          (''CreateTime'', Arr [Str ''1700000000'']),
          (''MsgType'', Arr [Str ''text'']),
          (''Content'', Arr [Str ''hello''])]"

definition imageXml :: string where
  "imageXml = ''<xml><ToUserName><![CDATA[gh_bot]]></ToUserName><FromUserName><![CDATA[user1]]></FromUserName><CreateTime>1700000000</CreateTime><MsgType><![CDATA[image]]></MsgType><PicUrl><![CDATA[http://example.com/cat.jpg]]></PicUrl></xml>''"

definition imageMessage :: jsval where
  "imageMessage =
     Obj [(''ToUserName'', Arr [Str ''gh_bot'']),
          (''FromUserName'', Arr [Str ''user1'']),
          (''CreateTime'', Arr [Str ''1700000000'']),
          (''MsgType'', Arr [Str ''image'']),
          (''PicUrl'', Arr [Str ''http://example.com/cat.jpg''])]"

definition sampleParse :: "string \<Rightarrow> jserror + jsval" where
  "sampleParse xmlData =
     (if xmlData = textXml then Inr (Obj [(''xml'', textMessage)])
      else if xmlData = imageXml then Inr (Obj [(''xml'', imageMessage)])
      else Inl ParseError)"

definition nullPrototype :: "jsval \<Rightarrow> bool" where
  "nullPrototype v = False"

definition sampleBuild :: "replyPayload \<Rightarrow> jserror + string" where
  "sampleBuild p =
     (case ToUserName p of
        Str t \<Rightarrow>
          (case FromUserName p of
             Str f \<Rightarrow> Inr (''<xml><ToUserName>'' @ t @ ''</ToUserName><FromUserName>'' @ f
                            @ ''</FromUserName><MsgType>'' @ MsgType p
                            @ ''</MsgType><Content>'' @ Content p @ ''</Content></xml>'')
           | _ \<Rightarrow> Inl BuildError)
      | _ \<Rightarrow> Inl BuildError)"

definition okApi :: "jsval \<Rightarrow> jserror + string option" where
  "okApi p = Inr (Some ''Hi there'')"

definition failingApi :: "jsval \<Rightarrow> jserror + string option" where
  "failingApi p = Inl ApiError"

text \<open>
  \<open>strictBuild\<close> stands in for a builder that refuses a content holding a control
  character that XML 1.0 does not allow (every code unit below 32 except tab, line feed
  and carriage return), and \<open>controlApi\<close> for an API whose text holds one.
\<close>

definition illegalXmlChar :: "char \<Rightarrow> bool" where
  "illegalXmlChar c = (of_char c < (32 :: nat) \<and> of_char c \<notin> set [9, 10, 13 :: nat])"

definition strictBuild :: "replyPayload \<Rightarrow> jserror + string" where
  "strictBuild p = (if list_ex illegalXmlChar (Content p) then Inl BuildError else sampleBuild p)"

definition controlApi :: "jsval \<Rightarrow> jserror + string option" where
  "controlApi p = Inr (Some [CHR ''a'', CHR 0x01, CHR ''b''])"

text \<open>The two bodies arrive in two chunks and in one.\<close>

definition textRequest :: request where
  "textRequest =
     \<lparr>httpMethod = ''POST'', query = Map.empty,
      events = [EvData ''<xml><ToUserName><![CDATA[gh_bot]]></ToUserName><FromUserName><![CDATA[user1]]></FromUserName>'',
                EvData ''<CreateTime>1700000000</CreateTime><MsgType><![CDATA[text]]></MsgType><Content><![CDATA[hello]]></Content></xml>'',
                EvEnd]\<rparr>"

definition imageRequest :: request where
  "imageRequest = \<lparr>httpMethod = ''POST'', query = Map.empty, events = [EvData imageXml, EvEnd]\<rparr>"





section \<open>Properties of the entry point\<close>

lemma handler_routes:
  "httpMethod req = ''GET'' \<Longrightarrow>
     handler sha1hex token parseString objectConverts buildObject generateContent now req
       = handleVerification sha1hex token req"
  "httpMethod req = ''POST'' \<Longrightarrow>
     handler sha1hex token parseString objectConverts buildObject generateContent now req
       = handleMessage parseString objectConverts buildObject generateContent now req"
  "httpMethod req \<noteq> ''GET'' \<Longrightarrow> httpMethod req \<noteq> ''POST'' \<Longrightarrow>
     map_option status
       (sent (handler sha1hex token parseString objectConverts buildObject generateContent now req))
       = Some 405"
  by (simp_all add: handler_def)

section \<open>Properties of the verification handler\<close>

lemma jsSort_three_strings:
  "map toString (jsSort [QStr a, QStr b, QStr c]) = sort [a, b, c]"
  by (simp add: jsSort_def)

lemma handleVerification_missing:
  assumes "falsy (query req ''signature'') \<or> falsy (query req ''timestamp'')
           \<or> falsy (query req ''nonce'') \<or> falsy (query req ''echostr'')"
  shows "handleVerification sha1hex token req = missingParameters"
  using assms by (simp add: handleVerification_def)

text \<open>
  When the four parameters are truthy (strings or arrays), the handler hashes once and
  answers 200 or 403.
\<close>

lemma handleVerification_present:
  assumes "query req ''signature'' = Some signature" "\<not> falsy (Some signature)"
      and "query req ''timestamp'' = Some timestamp" "\<not> falsy (Some timestamp)"
      and "query req ''nonce'' = Some nonce" "\<not> falsy (Some nonce)"
      and "query req ''echostr'' = Some echostr" "\<not> falsy (Some echostr)"
  shows "handleVerification sha1hex token req =
           (if QStr (sha1hex (joinEmpty (jsSort [QStr token, timestamp, nonce]))) = signature
            then \<lparr>sent = Some \<lparr>status = 200, contentType = None, body = echostr\<rparr>,
                  hashed = [joinEmpty (jsSort [QStr token, timestamp, nonce])], apiCalls = []\<rparr>
            else \<lparr>sent = Some \<lparr>status = 403, contentType = None,
                                 body = QStr ''Verification failed.''\<rparr>,
                  hashed = [joinEmpty (jsSort [QStr token, timestamp, nonce])], apiCalls = []\<rparr>)"
  using assms by (simp add: handleVerification_def Let_def)

text \<open>
  Claim C1. When the four parameters \<open>signature\<close>, \<open>timestamp\<close>, \<open>nonce\<close> and
  \<open>echostr\<close> are present and non-empty strings, the handler answers 200 with the body
  \<open>echostr\<close> exactly when \<open>signature\<close> is the hex digest of the concatenation of the
  sorted list of token, timestamp and nonce; when it is not, the handler answers 403.
\<close>

theorem C1_verification_signature:
  assumes "query req ''signature'' = Some (QStr signature)" and "signature \<noteq> ''''"
      and "query req ''timestamp'' = Some (QStr timestamp)" and "timestamp \<noteq> ''''"
      and "query req ''nonce'' = Some (QStr nonce)" and "nonce \<noteq> ''''"
      and "query req ''echostr'' = Some (QStr echostr)" and "echostr \<noteq> ''''"
  shows "((map_option status (sent (handleVerification sha1hex token req)) = Some 200
           \<and> map_option body (sent (handleVerification sha1hex token req)) = Some (QStr echostr))
          \<longleftrightarrow> signature = sha1hex (concat (sort [token, timestamp, nonce])))
       \<and> (signature \<noteq> sha1hex (concat (sort [token, timestamp, nonce]))
          \<longrightarrow> map_option status (sent (handleVerification sha1hex token req)) = Some 403)"
proof -
  have joined: "joinEmpty (jsSort [QStr token, QStr timestamp, QStr nonce])
                  = concat (sort [token, timestamp, nonce])"
    unfolding joinEmpty_def by (simp only: jsSort_three_strings)
  have "handleVerification sha1hex token req =
           (if QStr (sha1hex (concat (sort [token, timestamp, nonce]))) = QStr signature
            then \<lparr>sent = Some \<lparr>status = 200, contentType = None, body = QStr echostr\<rparr>,
                  hashed = [concat (sort [token, timestamp, nonce])], apiCalls = []\<rparr>
            else \<lparr>sent = Some \<lparr>status = 403, contentType = None,
                                 body = QStr ''Verification failed.''\<rparr>,
                  hashed = [concat (sort [token, timestamp, nonce])], apiCalls = []\<rparr>)"
    using handleVerification_present [OF assms(1) _ assms(3) _ assms(5) _ assms(7), of sha1hex token]
      assms(2,4,6,8)
    by (simp only: joined falsy.simps not_False_eq_True)
  then show ?thesis by auto
qed

text \<open>A request signed with \<open>toyDigest\<close> under the token \<open>token\<close> is answered with its \<open>echostr\<close>.\<close>

theorem C1_verification_signature_witness:
  "query verifyRequest ''signature'' = Some (QStr ''nekotecn0n0000000071'')
   \<and> query verifyRequest ''timestamp'' = Some (QStr ''1700000000'')
   \<and> query verifyRequest ''nonce'' = Some (QStr ''n0nce'')
   \<and> query verifyRequest ''echostr'' = Some (QStr ''echo-123'')
   \<and> ''nekotecn0n0000000071'' = toyDigest (concat (sort [''token'', ''1700000000'', ''n0nce'']))
   \<and> map_option status (sent (handleVerification toyDigest ''token'' verifyRequest)) = Some 200
   \<and> map_option body (sent (handleVerification toyDigest ''token'' verifyRequest))
       = Some (QStr ''echo-123'')"
proof -
  have q: "query verifyRequest ''signature'' = Some (QStr ''nekotecn0n0000000071'')"
    "query verifyRequest ''timestamp'' = Some (QStr ''1700000000'')"
    "query verifyRequest ''nonce'' = Some (QStr ''n0nce'')"
    "query verifyRequest ''echostr'' = Some (QStr ''echo-123'')"
    by (simp_all add: verifyRequest_def)
  have d: "''nekotecn0n0000000071'' = toyDigest (concat (sort [''token'', ''1700000000'', ''n0nce'']))"
    by (simp add: toyDigest_def)
  have ne: "''nekotecn0n0000000071'' \<noteq> ''''" "''1700000000'' \<noteq> ''''"
    "''n0nce'' \<noteq> ''''" "''echo-123'' \<noteq> ''''"
    by simp_all
  from C1_verification_signature
         [OF q(1) ne(1) q(2) ne(2) q(3) ne(3) q(4) ne(4), of toyDigest "''token''"] d q
  show ?thesis by blast
qed

text \<open>
  Claim C6. When one of the four parameters is missing from the query, the handler
  answers 400, and so neither 403 nor 200.
\<close>

theorem C6_missing_parameter_400:
  assumes "k \<in> set [''signature'', ''timestamp'', ''nonce'', ''echostr'']"
      and "query req k = None"
  shows "sent (handleVerification sha1hex token req)
           = Some \<lparr>status = 400, contentType = None,
                    body = QStr ''Missing verification parameters.''\<rparr>
       \<and> map_option status (sent (handleVerification sha1hex token req)) \<noteq> Some 403
       \<and> map_option status (sent (handleVerification sha1hex token req)) \<noteq> Some 200"
proof -
  from assms have "falsy (query req ''signature'') \<or> falsy (query req ''timestamp'')
                   \<or> falsy (query req ''nonce'') \<or> falsy (query req ''echostr'')"
    by auto
  then have "handleVerification sha1hex token req = missingParameters"
    by (rule handleVerification_missing)
  then show ?thesis by (simp add: missingParameters_def)
qed

text \<open>The signed request above, without its \<open>nonce\<close>.\<close>

theorem C6_missing_parameter_400_witness:
  "''nonce'' \<in> set [''signature'', ''timestamp'', ''nonce'', ''echostr'']
   \<and> query (verifyRequest\<lparr>query := (query verifyRequest)(''nonce'' := None)\<rparr>) ''nonce'' = None
   \<and> sent (handleVerification toyDigest ''token''
              (verifyRequest\<lparr>query := (query verifyRequest)(''nonce'' := None)\<rparr>))
       = Some \<lparr>status = 400, contentType = None,
                body = QStr ''Missing verification parameters.''\<rparr>"
proof -
  let ?req = "verifyRequest\<lparr>query := (query verifyRequest)(''nonce'' := None)\<rparr>"
  have k: "''nonce'' \<in> set [''signature'', ''timestamp'', ''nonce'', ''echostr'']"
    by simp
  have q: "query ?req ''nonce'' = None"
    by simp
  from C6_missing_parameter_400 [OF k q, of toyDigest "''token''"] k q
  show ?thesis by blast
qed

text \<open>
  Claim C10. When one of the four parameters is present and equal to the empty string,
  the handler answers 400, nothing is hashed, and the outcome is the one of the same
  request without that parameter.
\<close>

theorem C10_empty_parameter_400:
  assumes "k \<in> set [''signature'', ''timestamp'', ''nonce'', ''echostr'']"
      and "query req k = Some (QStr '''')"
  shows "sent (handleVerification sha1hex token req)
           = Some \<lparr>status = 400, contentType = None,
                    body = QStr ''Missing verification parameters.''\<rparr>
       \<and> hashed (handleVerification sha1hex token req) = []
       \<and> handleVerification sha1hex token req
           = handleVerification sha1hex token (req\<lparr>query := (query req)(k := None)\<rparr>)"
proof -
  from assms have "falsy (query req ''signature'') \<or> falsy (query req ''timestamp'')
                   \<or> falsy (query req ''nonce'') \<or> falsy (query req ''echostr'')"
    by auto
  then have here: "handleVerification sha1hex token req = missingParameters"
    by (rule handleVerification_missing)
  let ?req' = "req\<lparr>query := (query req)(k := None)\<rparr>"
  from assms(1) have "falsy (query ?req' ''signature'') \<or> falsy (query ?req' ''timestamp'')
                   \<or> falsy (query ?req' ''nonce'') \<or> falsy (query ?req' ''echostr'')"
    by auto
  then have "handleVerification sha1hex token ?req' = missingParameters"
    by (rule handleVerification_missing)
  with here show ?thesis by (simp add: missingParameters_def)
qed

text \<open>The signed request above, with an empty \<open>echostr\<close>.\<close>

theorem C10_empty_parameter_400_witness:
  "''echostr'' \<in> set [''signature'', ''timestamp'', ''nonce'', ''echostr'']
   \<and> query (verifyRequest\<lparr>query := (query verifyRequest)(''echostr'' \<mapsto> QStr '''')\<rparr>) ''echostr''
       = Some (QStr '''')
   \<and> sent (handleVerification toyDigest ''token''
              (verifyRequest\<lparr>query := (query verifyRequest)(''echostr'' \<mapsto> QStr '''')\<rparr>))
       = Some \<lparr>status = 400, contentType = None,
                body = QStr ''Missing verification parameters.''\<rparr>
   \<and> hashed (handleVerification toyDigest ''token''
              (verifyRequest\<lparr>query := (query verifyRequest)(''echostr'' \<mapsto> QStr '''')\<rparr>)) = []"
proof -
  let ?req = "verifyRequest\<lparr>query := (query verifyRequest)(''echostr'' \<mapsto> QStr '''')\<rparr>"
  have k: "''echostr'' \<in> set [''signature'', ''timestamp'', ''nonce'', ''echostr'']"
    by simp
  have q: "query ?req ''echostr'' = Some (QStr '''')"
    by simp
  from C10_empty_parameter_400 [OF k q, of toyDigest "''token''"] k q
  show ?thesis by blast
qed

section \<open>Properties of the message handler\<close>

lemma sendReply_status:
  "sendReply buildObject now originalMessage content = Inr r \<Longrightarrow> status r = 200"
  by (auto simp: sendReply_def split: sum.splits)

lemma sendReply_built:
  assumes "field0 ''ToUserName'' originalMessage = Inr toUserName"
      and "field0 ''FromUserName'' originalMessage = Inr fromUserName"
      and "buildObject \<lparr>ToUserName = toUserName, FromUserName = fromUserName,
                         CreateTime = now div 1000, MsgType = ''text'',
                         Content = content\<rparr> = Inr xmlResponse"
  shows "sendReply buildObject now originalMessage content
           = Inr \<lparr>status = 200, contentType = Some ''application/xml'',
                   body = QStr xmlResponse\<rparr>"
  using assms by (simp add: sendReply_def)

text \<open>What \<open>sendReply\<close> reads from the object that the text branch hands to it.\<close>

lemma field0_swapped:
  "field0 ''ToUserName'' (Obj [(''FromUserName'', Arr [toUser]), (''ToUserName'', Arr [fromUser])])
     = Inr fromUser"
  "field0 ''FromUserName'' (Obj [(''FromUserName'', Arr [toUser]), (''ToUserName'', Arr [fromUser])])
     = Inr toUser"
  by (simp_all add: field0_def)

lemma tryMessage_text:
  assumes "parseString xmlData = Inr parsedXml"
      and "getProp ''xml'' parsedXml = Inr message"
      and "field0 ''MsgType'' message = Inr (Str ''text'')"
      and "field0 ''Content'' message = Inr userPrompt"
      and "field0 ''FromUserName'' message = Inr fromUser"
      and "field0 ''ToUserName'' message = Inr toUser"
      and "convertsToString objectConverts fromUser"
      and "convertsToString objectConverts userPrompt"
  shows "tryMessage parseString objectConverts buildObject generateContent now xmlData
           = (sendReply buildObject now
                (Obj [(''FromUserName'', Arr [toUser]), (''ToUserName'', Arr [fromUser])])
                (getGeminiResponse generateContent userPrompt),
              [userPrompt])"
  using assms by (simp add: tryMessage_def)

lemma tryMessage_other:
  assumes "parseString xmlData = Inr parsedXml"
      and "getProp ''xml'' parsedXml = Inr message"
      and "field0 ''MsgType'' message = Inr msgType"
      and "msgType \<noteq> Str ''text''"
  shows "tryMessage parseString objectConverts buildObject generateContent now xmlData
           = (sendReply buildObject now message
                ''Sorry, I can only understand text messages for now.'', [])"
  using assms by (simp add: tryMessage_def)

lemma tryMessage_status:
  "tryMessage parseString objectConverts buildObject generateContent now xmlData = (Inr r, calls)
     \<Longrightarrow> status r = 200"
  by (auto simp: tryMessage_def Let_def split: sum.splits if_splits dest: sendReply_status)

text \<open>The reply to a text message, whatever the API did.\<close>

lemma handleMessage_text:
  assumes "getRawBody (events req) '''' = Resolved xmlData"
      and "parseString xmlData = Inr parsedXml"
      and "getProp ''xml'' parsedXml = Inr message"
      and "field0 ''MsgType'' message = Inr (Str ''text'')"
      and "field0 ''Content'' message = Inr userPrompt"
      and "field0 ''FromUserName'' message = Inr fromUser"
      and "field0 ''ToUserName'' message = Inr toUser"
      and "convertsToString objectConverts fromUser"
      and "convertsToString objectConverts userPrompt"
      and "buildObject \<lparr>ToUserName = fromUser, FromUserName = toUser,
                         CreateTime = now div 1000, MsgType = ''text'',
                         Content = getGeminiResponse generateContent userPrompt\<rparr>
             = Inr xmlResponse"
  shows "handleMessage parseString objectConverts buildObject generateContent now req
           = \<lparr>sent = Some \<lparr>status = 200, contentType = Some ''application/xml'',
                            body = QStr xmlResponse\<rparr>,
              hashed = [], apiCalls = [userPrompt]\<rparr>"
proof -
  have "tryMessage parseString objectConverts buildObject generateContent now xmlData
           = (sendReply buildObject now
                (Obj [(''FromUserName'', Arr [toUser]), (''ToUserName'', Arr [fromUser])])
                (getGeminiResponse generateContent userPrompt),
              [userPrompt])"
    by (rule tryMessage_text) (rule assms)+
  moreover have "sendReply buildObject now
                (Obj [(''FromUserName'', Arr [toUser]), (''ToUserName'', Arr [fromUser])])
                (getGeminiResponse generateContent userPrompt)
           = Inr \<lparr>status = 200, contentType = Some ''application/xml'',
                   body = QStr xmlResponse\<rparr>"
    by (rule sendReply_built) (rule field0_swapped assms(10))+
  ultimately show ?thesis
    using assms(1) by (simp add: handleMessage_def)
qed

text \<open>The reply to a message of another type.\<close>

lemma handleMessage_other:
  assumes "getRawBody (events req) '''' = Resolved xmlData"
      and "parseString xmlData = Inr parsedXml"
      and "getProp ''xml'' parsedXml = Inr message"
      and "field0 ''MsgType'' message = Inr msgType"
      and "msgType \<noteq> Str ''text''"
      and "field0 ''ToUserName'' message = Inr toUser"
      and "field0 ''FromUserName'' message = Inr fromUser"
      and "buildObject \<lparr>ToUserName = toUser, FromUserName = fromUser,
                         CreateTime = now div 1000, MsgType = ''text'',
                         Content = ''Sorry, I can only understand text messages for now.''\<rparr>
             = Inr xmlResponse"
  shows "handleMessage parseString objectConverts buildObject generateContent now req
           = \<lparr>sent = Some \<lparr>status = 200, contentType = Some ''application/xml'',
                            body = QStr xmlResponse\<rparr>,
              hashed = [], apiCalls = []\<rparr>"
proof -
  have "tryMessage parseString objectConverts buildObject generateContent now xmlData
           = (sendReply buildObject now message
                ''Sorry, I can only understand text messages for now.'', [])"
    by (rule tryMessage_other) (rule assms)+
  moreover have "sendReply buildObject now message
                   ''Sorry, I can only understand text messages for now.''
           = Inr \<lparr>status = 200, contentType = Some ''application/xml'',
                   body = QStr xmlResponse\<rparr>"
    by (rule sendReply_built) (rule assms)+
  ultimately show ?thesis
    using assms(1) by (simp add: handleMessage_def)
qed

text \<open>The \<open>catch\<close> block answers a failed stream and a body that does not parse.\<close>

lemma handleMessage_stream_error:
  "getRawBody (events req) '''' = Rejected e \<Longrightarrow>
   sent (handleMessage parseString objectConverts buildObject generateContent now req)
     = Some \<lparr>status = 200, contentType = None, body = QStr ''''\<rparr>"
  by (simp add: handleMessage_def emptyOk_def)

lemma handleMessage_parse_error:
  "getRawBody (events req) '''' = Resolved xmlData \<Longrightarrow> parseString xmlData = Inl e \<Longrightarrow>
   sent (handleMessage parseString objectConverts buildObject generateContent now req)
     = Some \<lparr>status = 200, contentType = None, body = QStr ''''\<rparr>"
  by (simp add: handleMessage_def tryMessage_def emptyOk_def)

text \<open>Facts about the two concrete requests.\<close>

lemma textRequest_body: "getRawBody (events textRequest) '''' = Resolved textXml"
  by (simp add: textRequest_def textXml_def)

lemma imageRequest_body: "getRawBody (events imageRequest) '''' = Resolved imageXml"
  by (simp add: imageRequest_def)

lemma sampleParse_text: "sampleParse textXml = Inr (Obj [(''xml'', textMessage)])"
  by (simp add: sampleParse_def)

lemma sampleParse_image: "sampleParse imageXml = Inr (Obj [(''xml'', imageMessage)])"
  by (simp add: sampleParse_def textXml_def imageXml_def)

lemma xml_of_parsed: "getProp ''xml'' (Obj [(''xml'', message)]) = Inr message"
  by simp

lemma textMessage_fields:
  "field0 ''MsgType'' textMessage = Inr (Str ''text'')"
  "field0 ''Content'' textMessage = Inr (Str ''hello'')"
  "field0 ''FromUserName'' textMessage = Inr (Str ''user1'')"
  "field0 ''ToUserName'' textMessage = Inr (Str ''gh_bot'')"
  by (simp_all add: field0_def textMessage_def)

lemma imageMessage_fields:
  "field0 ''MsgType'' imageMessage = Inr (Str ''image'')"
  "field0 ''FromUserName'' imageMessage = Inr (Str ''user1'')"
  "field0 ''ToUserName'' imageMessage = Inr (Str ''gh_bot'')"
  by (simp_all add: field0_def imageMessage_def)

lemma okApi_answers: "okApi (Str ''hello'') = Inr (Some ''Hi there'')"
  by (simp add: okApi_def)

lemma failingApi_throws: "failingApi (Str ''hello'') = Inl ApiError"
  by (simp add: failingApi_def)

lemma sampleBuild_trouble:
  "sampleBuild \<lparr>ToUserName = Str ''user1'', FromUserName = Str ''gh_bot'',
                 CreateTime = 1700000000123 div 1000, MsgType = ''text'',
                 Content = ''Sorry, I'm having trouble thinking right now. Please try again later.''\<rparr>
     = Inr ''<xml><ToUserName>user1</ToUserName><FromUserName>gh_bot</FromUserName><MsgType>text</MsgType><Content>Sorry, I'm having trouble thinking right now. Please try again later.</Content></xml>''"
  by (simp add: sampleBuild_def)

lemma sampleBuild_apology:
  "sampleBuild \<lparr>ToUserName = Str ''gh_bot'', FromUserName = Str ''user1'',
                 CreateTime = 1700000000123 div 1000, MsgType = ''text'',
                 Content = ''Sorry, I can only understand text messages for now.''\<rparr>
     = Inr ''<xml><ToUserName>gh_bot</ToUserName><FromUserName>user1</FromUserName><MsgType>text</MsgType><Content>Sorry, I can only understand text messages for now.</Content></xml>''"
  by (simp add: sampleBuild_def)

lemma controlApi_text: "controlApi (Str ''hello'') = Inr (Some [CHR ''a'', CHR 0x01, CHR ''b''])"
  by (simp add: controlApi_def)

text \<open>
  Claim C2, as the code has it. Take a request whose body parses to a document with root
  \<open>xml\<close>, whose \<open>MsgType\<close> is \<open>text\<close> and whose \<open>Content\<close> and \<open>FromUserName\<close> are
  strings, and let the API return the text \<open>answer\<close> for that content. The handler
  calls the API once, with the inbound content, and hands the builder the envelope whose
  \<open>ToUserName\<close> is the inbound \<open>FromUserName\<close>, whose \<open>FromUserName\<close> is the inbound
  \<open>ToUserName\<close>, whose \<open>MsgType\<close> is \<open>text\<close> and whose \<open>Content\<close> is \<open>answer\<close>. If the
  builder returns, the handler answers 200 with content type \<open>application/xml\<close> and the
  builder's output as body; if the builder throws, the \<open>catch\<close> block answers 200 with
  an empty body.
\<close>

theorem C2_text_reply_or_empty:
  assumes "getRawBody (events req) '''' = Resolved xmlData"
      and "parseString xmlData = Inr parsedXml"
      and "getProp ''xml'' parsedXml = Inr message"
      and "field0 ''MsgType'' message = Inr (Str ''text'')"
      and "field0 ''Content'' message = Inr (Str userPrompt)"
      and "field0 ''FromUserName'' message = Inr (Str fromUser)"
      and "field0 ''ToUserName'' message = Inr toUser"
      and "generateContent (Str userPrompt) = Inr (Some answer)"
  shows "sent (handleMessage parseString objectConverts buildObject generateContent now req)
           = Some (case buildObject \<lparr>ToUserName = Str fromUser, FromUserName = toUser,
                                      CreateTime = now div 1000, MsgType = ''text'',
                                      Content = answer\<rparr> of
                     Inr xmlResponse \<Rightarrow>
                       \<lparr>status = 200, contentType = Some ''application/xml'',
                        body = QStr xmlResponse\<rparr>
                   | Inl e \<Rightarrow> \<lparr>status = 200, contentType = None, body = QStr ''''\<rparr>)
       \<and> apiCalls (handleMessage parseString objectConverts buildObject generateContent now req)
           = [Str userPrompt]"
proof -
  have answer: "getGeminiResponse generateContent (Str userPrompt) = answer"
    using assms(8) by (simp add: getGeminiResponse_def)
  have "convertsToString objectConverts (Str fromUser)"
    and "convertsToString objectConverts (Str userPrompt)"
    by simp_all
  with assms(2-7)
  have "tryMessage parseString objectConverts buildObject generateContent now xmlData
           = (sendReply buildObject now
                (Obj [(''FromUserName'', Arr [toUser]), (''ToUserName'', Arr [Str fromUser])])
                answer,
              [Str userPrompt])"
    by (simp only: tryMessage_text answer)
  moreover have "sendReply buildObject now
                (Obj [(''FromUserName'', Arr [toUser]), (''ToUserName'', Arr [Str fromUser])])
                answer
           = (case buildObject \<lparr>ToUserName = Str fromUser, FromUserName = toUser,
                                   CreateTime = now div 1000, MsgType = ''text'',
                                   Content = answer\<rparr> of
                Inl e \<Rightarrow> Inl e
              | Inr xmlResponse \<Rightarrow>
                  Inr \<lparr>status = 200, contentType = Some ''application/xml'',
                       body = QStr xmlResponse\<rparr>)"
    by (simp add: sendReply_def field0_swapped)
  ultimately show ?thesis
    using assms(1) by (simp add: handleMessage_def emptyOk_def split: sum.splits)
qed

text \<open>
  The text message \<open>hello\<close> from \<open>user1\<close> to \<open>gh_bot\<close>: answered by \<open>okApi\<close> and built
  by \<open>sampleBuild\<close>, and answered by \<open>controlApi\<close> and refused by \<open>strictBuild\<close>.
\<close>

theorem C2_text_reply_or_empty_witness:
  "getRawBody (events textRequest) '''' = Resolved textXml
   \<and> sampleParse textXml = Inr (Obj [(''xml'', textMessage)])
   \<and> getProp ''xml'' (Obj [(''xml'', textMessage)]) = Inr textMessage
   \<and> field0 ''MsgType'' textMessage = Inr (Str ''text'')
   \<and> field0 ''Content'' textMessage = Inr (Str ''hello'')
   \<and> field0 ''FromUserName'' textMessage = Inr (Str ''user1'')
   \<and> field0 ''ToUserName'' textMessage = Inr (Str ''gh_bot'')
   \<and> okApi (Str ''hello'') = Inr (Some ''Hi there'')
   \<and> sent (handleMessage sampleParse nullPrototype sampleBuild okApi 1700000000123 textRequest)
       = Some \<lparr>status = 200, contentType = Some ''application/xml'',
                body = QStr ''<xml><ToUserName>user1</ToUserName><FromUserName>gh_bot</FromUserName><MsgType>text</MsgType><Content>Hi there</Content></xml>''\<rparr>
   \<and> apiCalls (handleMessage sampleParse nullPrototype sampleBuild okApi 1700000000123 textRequest)
       = [Str ''hello'']
   \<and> controlApi (Str ''hello'') = Inr (Some [CHR ''a'', CHR 0x01, CHR ''b''])
   \<and> sent (handleMessage sampleParse nullPrototype strictBuild controlApi 1700000000123
               textRequest)
       = Some \<lparr>status = 200, contentType = None, body = QStr ''''\<rparr>"
proof -
  note built = C2_text_reply_or_empty [where parseString = sampleParse
      and generateContent = okApi and buildObject = sampleBuild
      and objectConverts = nullPrototype and now = 1700000000123,
      OF textRequest_body sampleParse_text xml_of_parsed textMessage_fields okApi_answers]
  note refused = C2_text_reply_or_empty [where parseString = sampleParse
      and generateContent = controlApi and buildObject = strictBuild
      and objectConverts = nullPrototype and now = 1700000000123,
      OF textRequest_body sampleParse_text xml_of_parsed textMessage_fields controlApi_text]
  have first: "sent (handleMessage sampleParse nullPrototype sampleBuild okApi 1700000000123
                       textRequest)
       = Some \<lparr>status = 200, contentType = Some ''application/xml'',
                body = QStr ''<xml><ToUserName>user1</ToUserName><FromUserName>gh_bot</FromUserName><MsgType>text</MsgType><Content>Hi there</Content></xml>''\<rparr>"
    using built by (simp add: sampleBuild_def)
  have calls: "apiCalls (handleMessage sampleParse nullPrototype sampleBuild okApi 1700000000123
                           textRequest)
       = [Str ''hello'']"
    using built by simp
  have second: "sent (handleMessage sampleParse nullPrototype strictBuild controlApi 1700000000123
                        textRequest)
       = Some \<lparr>status = 200, contentType = None, body = QStr ''''\<rparr>"
    using refused by (simp add: strictBuild_def illegalXmlChar_def)
  from textRequest_body sampleParse_text xml_of_parsed textMessage_fields okApi_answers
    controlApi_text first calls second
  show ?thesis by blast
qed

text \<open>
  The claim as the specification states it promises an envelope for every text message.
  At the text message \<open>hello\<close> the API returns a text with the control character
  U+0001, the builder throws on the envelope that carries it, and the handler answers
  200 with an empty body.
\<close>

theorem C2_builder_throws_counterexample:
  "field0 ''MsgType'' textMessage = Inr (Str ''text'')
   \<and> controlApi (Str ''hello'') = Inr (Some [CHR ''a'', CHR 0x01, CHR ''b''])
   \<and> strictBuild \<lparr>ToUserName = Str ''user1'', FromUserName = Str ''gh_bot'',
                    CreateTime = 1700000000123 div 1000, MsgType = ''text'',
                    Content = [CHR ''a'', CHR 0x01, CHR ''b'']\<rparr>
       = Inl BuildError
   \<and> apiCalls (handleMessage sampleParse nullPrototype strictBuild controlApi 1700000000123
                 textRequest)
       = [Str ''hello'']
   \<and> sent (handleMessage sampleParse nullPrototype strictBuild controlApi 1700000000123
               textRequest)
       = Some \<lparr>status = 200, contentType = None, body = QStr ''''\<rparr>"
proof -
  have answer: "getGeminiResponse controlApi (Str ''hello'') = [CHR ''a'', CHR 0x01, CHR ''b'']"
    by (simp add: getGeminiResponse_def controlApi_def)
  have "convertsToString nullPrototype (Str ''user1'')"
    and "convertsToString nullPrototype (Str ''hello'')"
    by simp_all
  then have "tryMessage sampleParse nullPrototype strictBuild controlApi 1700000000123 textXml
           = (sendReply strictBuild 1700000000123
                (Obj [(''FromUserName'', Arr [Str ''gh_bot'']),
                      (''ToUserName'', Arr [Str ''user1''])])
                [CHR ''a'', CHR 0x01, CHR ''b''],
              [Str ''hello''])"
    using tryMessage_text [where parseString = sampleParse and generateContent = controlApi
        and buildObject = strictBuild and objectConverts = nullPrototype
        and now = 1700000000123,
        OF sampleParse_text xml_of_parsed textMessage_fields]
    by (simp only: answer)
  moreover have "sendReply strictBuild 1700000000123
                (Obj [(''FromUserName'', Arr [Str ''gh_bot'']),
                      (''ToUserName'', Arr [Str ''user1''])])
                [CHR ''a'', CHR 0x01, CHR ''b'']
           = Inl BuildError"
    by (simp add: sendReply_def field0_swapped strictBuild_def illegalXmlChar_def)
  ultimately have "handleMessage sampleParse nullPrototype strictBuild controlApi 1700000000123
                     textRequest
           = \<lparr>sent = Some emptyOk, hashed = [], apiCalls = [Str ''hello'']\<rparr>"
    using textRequest_body by (simp add: handleMessage_def)
  then show ?thesis
    by (simp add: emptyOk_def textMessage_fields controlApi_text strictBuild_def illegalXmlChar_def)
qed

text \<open>
  Claim C3, on the branch for messages that are not text. The handler passes the inbound
  message itself to \<open>sendReply\<close>, which copies \<open>ToUserName\<close> and \<open>FromUserName\<close> from
  its argument: the image message from \<open>user1\<close> to \<open>gh_bot\<close> is answered with an
  envelope that is again from \<open>user1\<close> to \<open>gh_bot\<close>. The names are not swapped.
\<close>

theorem C3_other_type_names_not_swapped:
  "field0 ''FromUserName'' imageMessage = Inr (Str ''user1'')
   \<and> field0 ''ToUserName'' imageMessage = Inr (Str ''gh_bot'')
   \<and> sent (handleMessage sampleParse nullPrototype sampleBuild okApi 1700000000123 imageRequest)
       = Some \<lparr>status = 200, contentType = Some ''application/xml'',
                body = QStr ''<xml><ToUserName>gh_bot</ToUserName><FromUserName>user1</FromUserName><MsgType>text</MsgType><Content>Sorry, I can only understand text messages for now.</Content></xml>''\<rparr>"
proof -
  have "Str ''image'' \<noteq> Str ''text''"
    by simp
  from handleMessage_other [where parseString = sampleParse and buildObject = sampleBuild
      and generateContent = okApi and objectConverts = nullPrototype,
      OF imageRequest_body sampleParse_image xml_of_parsed imageMessage_fields(1) this
         imageMessage_fields(3,2) sampleBuild_apology]
  show ?thesis by (simp add: imageMessage_fields)
qed

text \<open>
  Claim C4, as the code has it. When the API call throws while a text message is
  handled, \<open>getGeminiResponse\<close> catches the error and returns a fixed sentence, and the
  handler answers 200 with the envelope that carries this sentence as \<open>Content\<close> (the
  names swapped as in any reply to a text message). The body is not empty.
\<close>

theorem C4_api_failure_reply:
  assumes "getRawBody (events req) '''' = Resolved xmlData"
      and "parseString xmlData = Inr parsedXml"
      and "getProp ''xml'' parsedXml = Inr message"
      and "field0 ''MsgType'' message = Inr (Str ''text'')"
      and "field0 ''Content'' message = Inr (Str userPrompt)"
      and "field0 ''FromUserName'' message = Inr (Str fromUser)"
      and "field0 ''ToUserName'' message = Inr toUser"
      and "generateContent (Str userPrompt) = Inl err"
      and "buildObject \<lparr>ToUserName = Str fromUser, FromUserName = toUser,
                         CreateTime = now div 1000, MsgType = ''text'',
                         Content = ''Sorry, I'm having trouble thinking right now. Please try again later.''\<rparr>
             = Inr xmlResponse"
  shows "sent (handleMessage parseString objectConverts buildObject generateContent now req)
           = Some \<lparr>status = 200, contentType = Some ''application/xml'',
                    body = QStr xmlResponse\<rparr>"
proof -
  have "getGeminiResponse generateContent (Str userPrompt)
          = ''Sorry, I'm having trouble thinking right now. Please try again later.''"
    using assms(8) by (simp add: getGeminiResponse_def)
  with assms(9) have built: "buildObject \<lparr>ToUserName = Str fromUser, FromUserName = toUser,
                         CreateTime = now div 1000, MsgType = ''text'',
                         Content = getGeminiResponse generateContent (Str userPrompt)\<rparr>
             = Inr xmlResponse"
    by simp
  have "convertsToString objectConverts (Str fromUser)"
    and "convertsToString objectConverts (Str userPrompt)"
    by simp_all
  from handleMessage_text [where parseString = parseString and buildObject = buildObject
      and generateContent = generateContent, OF assms(1-7) this built]
  show ?thesis by simp
qed

text \<open>The text message \<open>hello\<close>, with an API that throws.\<close>

theorem C4_api_failure_reply_witness:
  "getRawBody (events textRequest) '''' = Resolved textXml
   \<and> sampleParse textXml = Inr (Obj [(''xml'', textMessage)])
   \<and> getProp ''xml'' (Obj [(''xml'', textMessage)]) = Inr textMessage
   \<and> field0 ''MsgType'' textMessage = Inr (Str ''text'')
   \<and> field0 ''Content'' textMessage = Inr (Str ''hello'')
   \<and> field0 ''FromUserName'' textMessage = Inr (Str ''user1'')
   \<and> field0 ''ToUserName'' textMessage = Inr (Str ''gh_bot'')
   \<and> failingApi (Str ''hello'') = Inl ApiError
   \<and> sampleBuild \<lparr>ToUserName = Str ''user1'', FromUserName = Str ''gh_bot'',
                    CreateTime = 1700000000123 div 1000, MsgType = ''text'',
                    Content = ''Sorry, I'm having trouble thinking right now. Please try again later.''\<rparr>
       = Inr ''<xml><ToUserName>user1</ToUserName><FromUserName>gh_bot</FromUserName><MsgType>text</MsgType><Content>Sorry, I'm having trouble thinking right now. Please try again later.</Content></xml>''
   \<and> sent (handleMessage sampleParse nullPrototype sampleBuild failingApi 1700000000123 textRequest)
       = Some \<lparr>status = 200, contentType = Some ''application/xml'',
                body = QStr ''<xml><ToUserName>user1</ToUserName><FromUserName>gh_bot</FromUserName><MsgType>text</MsgType><Content>Sorry, I'm having trouble thinking right now. Please try again later.</Content></xml>''\<rparr>"
proof -
  note C4_api_failure_reply [where parseString = sampleParse and generateContent = failingApi
      and buildObject = sampleBuild and objectConverts = nullPrototype,
      OF textRequest_body sampleParse_text xml_of_parsed textMessage_fields failingApi_throws
         sampleBuild_trouble]
  with textRequest_body sampleParse_text xml_of_parsed textMessage_fields failingApi_throws
    sampleBuild_trouble
  show ?thesis by blast
qed

text \<open>
  The claim as the specification states it asks for an empty body. At the text message
  \<open>hello\<close> the API is called and throws, and the handler answers 200 with an envelope.
\<close>

theorem C4_empty_body_counterexample:
  "failingApi (Str ''hello'') = Inl ApiError
   \<and> apiCalls (handleMessage sampleParse nullPrototype sampleBuild failingApi 1700000000123
                 textRequest)
       = [Str ''hello'']
   \<and> map_option status
        (sent (handleMessage sampleParse nullPrototype sampleBuild failingApi 1700000000123
                 textRequest))
       = Some 200
   \<and> map_option body
        (sent (handleMessage sampleParse nullPrototype sampleBuild failingApi 1700000000123
                 textRequest))
       = Some (QStr ''<xml><ToUserName>user1</ToUserName><FromUserName>gh_bot</FromUserName><MsgType>text</MsgType><Content>Sorry, I'm having trouble thinking right now. Please try again later.</Content></xml>'')
   \<and> map_option body
        (sent (handleMessage sampleParse nullPrototype sampleBuild failingApi 1700000000123
                 textRequest))
       \<noteq> Some (QStr '''')"
proof -
  have "getGeminiResponse failingApi (Str ''hello'')
          = ''Sorry, I'm having trouble thinking right now. Please try again later.''"
    by (simp add: getGeminiResponse_def failingApi_def)
  with sampleBuild_trouble
  have built: "sampleBuild \<lparr>ToUserName = Str ''user1'', FromUserName = Str ''gh_bot'',
                    CreateTime = 1700000000123 div 1000, MsgType = ''text'',
                    Content = getGeminiResponse failingApi (Str ''hello'')\<rparr>
       = Inr ''<xml><ToUserName>user1</ToUserName><FromUserName>gh_bot</FromUserName><MsgType>text</MsgType><Content>Sorry, I'm having trouble thinking right now. Please try again later.</Content></xml>''"
    by simp
  have "convertsToString nullPrototype (Str ''user1'')"
    and "convertsToString nullPrototype (Str ''hello'')"
    by simp_all
  from handleMessage_text [where parseString = sampleParse and generateContent = failingApi
      and buildObject = sampleBuild and objectConverts = nullPrototype,
      OF textRequest_body sampleParse_text xml_of_parsed textMessage_fields this built]
  show ?thesis by (simp add: failingApi_throws)
qed

text \<open>
  Claim C5. Once the request stream has ended or failed, the handler sends a response
  with status 200; and whatever the stream, the parser, the builder and the API do, a
  response that the handler sends has status 200.
\<close>

theorem C5_always_200:
  "(getRawBody (events req) '''' \<noteq> Pending
      \<longrightarrow> map_option status
            (sent (handleMessage parseString objectConverts buildObject generateContent now req))
            = Some 200)
   \<and> (sent (handleMessage parseString objectConverts buildObject generateContent now req) \<noteq> None
      \<longrightarrow> map_option status
            (sent (handleMessage parseString objectConverts buildObject generateContent now req))
            = Some 200)"
  by (auto simp: handleMessage_def emptyOk_def split: promise.splits sum.splits prod.splits
           dest: tryMessage_status)

text \<open>The text message \<open>hello\<close>: its stream ends, and the response has status 200.\<close>

theorem C5_always_200_witness:
  "getRawBody (events textRequest) '''' \<noteq> Pending
   \<and> sent (handleMessage sampleParse nullPrototype sampleBuild okApi 1700000000123 textRequest)
       \<noteq> None
   \<and> map_option status
        (sent (handleMessage sampleParse nullPrototype sampleBuild okApi 1700000000123 textRequest))
       = Some 200"
proof -
  have settled: "getRawBody (events textRequest) '''' \<noteq> Pending"
    by (simp add: textRequest_body)
  with C5_always_200 [of textRequest sampleParse nullPrototype sampleBuild okApi 1700000000123]
  have "map_option status
          (sent (handleMessage sampleParse nullPrototype sampleBuild okApi 1700000000123 textRequest))
        = Some 200"
    by blast
  with settled show ?thesis by auto
qed

text \<open>
  Claim C7. Take a request whose body parses to a document with root \<open>xml\<close> whose
  \<open>MsgType\<close> is not \<open>text\<close> and that has a \<open>ToUserName\<close> and a \<open>FromUserName\<close>. Then
  the handler answers with the envelope whose \<open>Content\<close> is the fixed apology, it passes
  no prompt to the API, and the outcome is the same with any other API.
\<close>

theorem C7_other_type_apology:
  assumes "getRawBody (events req) '''' = Resolved xmlData"
      and "parseString xmlData = Inr parsedXml"
      and "getProp ''xml'' parsedXml = Inr message"
      and "field0 ''MsgType'' message = Inr msgType"
      and "msgType \<noteq> Str ''text''"
      and "field0 ''ToUserName'' message = Inr toUser"
      and "field0 ''FromUserName'' message = Inr fromUser"
      and "buildObject \<lparr>ToUserName = toUser, FromUserName = fromUser,
                         CreateTime = now div 1000, MsgType = ''text'',
                         Content = ''Sorry, I can only understand text messages for now.''\<rparr>
             = Inr xmlResponse"
  shows "sent (handleMessage parseString objectConverts buildObject generateContent now req)
           = Some \<lparr>status = 200, contentType = Some ''application/xml'',
                    body = QStr xmlResponse\<rparr>
       \<and> apiCalls (handleMessage parseString objectConverts buildObject generateContent now req)
           = []
       \<and> handleMessage parseString objectConverts buildObject otherApi now req
           = handleMessage parseString objectConverts buildObject generateContent now req"
proof -
  note other = handleMessage_other [where parseString = parseString and buildObject = buildObject
      and objectConverts = objectConverts, OF assms]
  show ?thesis by (simp add: other)
qed

text \<open>The image message, with an API that answers and with one that throws.\<close>

theorem C7_other_type_apology_witness:
  "getRawBody (events imageRequest) '''' = Resolved imageXml
   \<and> sampleParse imageXml = Inr (Obj [(''xml'', imageMessage)])
   \<and> getProp ''xml'' (Obj [(''xml'', imageMessage)]) = Inr imageMessage
   \<and> field0 ''MsgType'' imageMessage = Inr (Str ''image'')
   \<and> Str ''image'' \<noteq> Str ''text''
   \<and> field0 ''ToUserName'' imageMessage = Inr (Str ''gh_bot'')
   \<and> field0 ''FromUserName'' imageMessage = Inr (Str ''user1'')
   \<and> sampleBuild \<lparr>ToUserName = Str ''gh_bot'', FromUserName = Str ''user1'',
                    CreateTime = 1700000000123 div 1000, MsgType = ''text'',
                    Content = ''Sorry, I can only understand text messages for now.''\<rparr>
       = Inr ''<xml><ToUserName>gh_bot</ToUserName><FromUserName>user1</FromUserName><MsgType>text</MsgType><Content>Sorry, I can only understand text messages for now.</Content></xml>''
   \<and> sent (handleMessage sampleParse nullPrototype sampleBuild okApi 1700000000123 imageRequest)
       = Some \<lparr>status = 200, contentType = Some ''application/xml'',
                body = QStr ''<xml><ToUserName>gh_bot</ToUserName><FromUserName>user1</FromUserName><MsgType>text</MsgType><Content>Sorry, I can only understand text messages for now.</Content></xml>''\<rparr>
   \<and> apiCalls (handleMessage sampleParse nullPrototype sampleBuild okApi 1700000000123
                 imageRequest) = []
   \<and> handleMessage sampleParse nullPrototype sampleBuild failingApi 1700000000123 imageRequest
       = handleMessage sampleParse nullPrototype sampleBuild okApi 1700000000123 imageRequest"
proof -
  have other: "Str ''image'' \<noteq> Str ''text''"
    by simp
  note C7_other_type_apology [where parseString = sampleParse and generateContent = okApi
      and buildObject = sampleBuild and otherApi = failingApi and objectConverts = nullPrototype,
      OF imageRequest_body sampleParse_image xml_of_parsed imageMessage_fields(1) other
         imageMessage_fields(3,2) sampleBuild_apology]
  with imageRequest_body sampleParse_image xml_of_parsed imageMessage_fields other
    sampleBuild_apology
  show ?thesis by blast
qed

section \<open>Properties of the prompt form\<close>






end
